theory Spec2Isabelle
  imports
    Complex_Main
    "HOL-Library.Sublist"
    "HOL-Library.AList"
    "HOL-Library.Char_ord"
    "HOL-Library.List_Lexorder"
begin

section \<open>Python strings as used by the experiment service\<close>

text \<open>
  The service (\<^verbatim>\<open>backend/services/experiment_service.py\<close>) scrapes the text lines
  the child process prints. A line is a \<^typ>\<open>string\<close>: the text that \<^verbatim>\<open>bytes.decode\<close> gave
  for it. The characters of the model are those of an ASCII text, and any other character
  is an ordinary one (neither white space nor a digit nor a letter with a lower-case form).
\<close>

datatype exn =
    ValueError string
  | IndexError
  | TypeError string
  | RuntimeError string
  | KeyError string
  | Exception string

text \<open>\<^verbatim>\<open>str.isspace\<close> on ASCII: tab, line feed, vertical tab, form feed, carriage
  return, the four separators 0x1C..0x1F and the blank.\<close>

definition whitespace_chars :: "char list" where
  "whitespace_chars =
     [CHR 0x09, CHR 0x0A, CHR 0x0B, CHR 0x0C, CHR 0x0D,
      CHR 0x1C, CHR 0x1D, CHR 0x1E, CHR 0x1F, CHR 0x20]"

definition py_isspace :: "char \<Rightarrow> bool" where
  "py_isspace c = (c \<in> set whitespace_chars)"

text \<open>\<^verbatim>\<open>s.strip()\<close>\<close>

definition py_strip :: "string \<Rightarrow> string" where
  "py_strip s = rev (dropWhile py_isspace (rev (dropWhile py_isspace s)))"

text \<open>\<^verbatim>\<open>s.lower()\<close>\<close>

definition py_lower_char :: "char \<Rightarrow> char" where
  "py_lower_char c =
     (case map_of (zip ''ABCDEFGHIJKLMNOPQRSTUVWXYZ'' ''abcdefghijklmnopqrstuvwxyz'') c of
        None \<Rightarrow> c
      | Some d \<Rightarrow> d)"

definition py_lower :: "string \<Rightarrow> string" where
  "py_lower s = map py_lower_char s"

text \<open>\<^verbatim>\<open>sub in s\<close>\<close>

fun py_in :: "string \<Rightarrow> string \<Rightarrow> bool" where
  "py_in sub [] = (sub = [])"
| "py_in sub (c # cs) = (prefix sub (c # cs) \<or> py_in sub cs)"

text \<open>\<^verbatim>\<open>s.split()\<close>: the maximal runs of characters that are not white space. The
  accumulator holds the current run, reversed.\<close>

fun split_ws_aux :: "string \<Rightarrow> string \<Rightarrow> string list" where
  "split_ws_aux cur [] = (if cur = [] then [] else [rev cur])"
| "split_ws_aux cur (c # cs) =
     (if py_isspace c
      then (if cur = [] then split_ws_aux [] cs else rev cur # split_ws_aux [] cs)
      else split_ws_aux (c # cur) cs)"

definition py_split_ws :: "string \<Rightarrow> string list" where
  "py_split_ws s = split_ws_aux [] s"

text \<open>\<^verbatim>\<open>s.split(sep)\<close> for a separator that is not empty (the service splits at the
  literals \<^verbatim>\<open>"Best reward:"\<close> and \<^verbatim>\<open>"/"\<close>): the pieces between the occurrences
  of the separator, found from left to right without overlap.\<close>

function split_sep_aux :: "string \<Rightarrow> string \<Rightarrow> string \<Rightarrow> string list" where
  "split_sep_aux sep cur [] = [rev cur]"
| "split_sep_aux sep cur (c # cs) =
     (if sep \<noteq> [] \<and> prefix sep (c # cs)
      then rev cur # split_sep_aux sep [] (drop (length sep) (c # cs))
      else split_sep_aux sep (c # cur) cs)"
  by pat_completeness auto
termination
  by (relation "measure (\<lambda>(sep, cur, s). length s)") (auto simp: neq_Nil_conv)

definition py_split :: "string \<Rightarrow> string \<Rightarrow> string list" where
  "py_split sep s = split_sep_aux sep [] s"

text \<open>\<^verbatim>\<open>xs[i]\<close> for an index that is not negative.\<close>

fun py_index :: "'a list \<Rightarrow> nat \<Rightarrow> exn + 'a" where
  "py_index [] i = Inl IndexError"
| "py_index (x # xs) 0 = Inr x"
| "py_index (x # xs) (Suc i) = py_index xs i"

text \<open>\<^verbatim>\<open>int(s)\<close> in base ten: white space around the literal is dropped, then an
  optional sign and decimal digits follow, where single underscores may stand between two
  digits. Anything else raises \<^verbatim>\<open>ValueError\<close>; the exception carries the offending text
  here, not the message Python builds from it.\<close>

definition digit_of :: "char \<Rightarrow> nat option" where
  "digit_of c = map_of (zip ''0123456789'' [0, 1, 2, 3, 4, 5, 6, 7, 8, 9]) c"

fun parse_digits :: "nat \<Rightarrow> string \<Rightarrow> nat option" where
  "parse_digits acc [] = Some acc"
| "parse_digits acc [c] =
     (case digit_of c of None \<Rightarrow> None | Some v \<Rightarrow> Some (10 * acc + v))"
| "parse_digits acc (c # d # ds) =
     (if c = CHR ''_''
      then (case digit_of d of None \<Rightarrow> None | Some v \<Rightarrow> parse_digits (10 * acc + v) ds)
      else (case digit_of c of None \<Rightarrow> None | Some v \<Rightarrow> parse_digits (10 * acc + v) (d # ds)))"

definition parse_digitpart :: "string \<Rightarrow> nat option" where
  "parse_digitpart s =
     (case s of
        [] \<Rightarrow> None
      | c # cs \<Rightarrow> (case digit_of c of None \<Rightarrow> None | Some v \<Rightarrow> parse_digits v cs))"

definition py_int :: "string \<Rightarrow> exn + int" where
  "py_int s =
     (let t = py_strip s;
          r = (case t of
                 [] \<Rightarrow> None
               | c # cs \<Rightarrow>
                   if c = CHR ''-'' then map_option (\<lambda>n. - int n) (parse_digitpart cs)
                   else if c = CHR ''+'' then map_option int (parse_digitpart cs)
                   else map_option int (parse_digitpart t))
      in case r of None \<Rightarrow> Inl (ValueError s) | Some n \<Rightarrow> Inr n)"

section \<open>The progress parser, line by line\<close>

text \<open>
  \<^verbatim>\<open>float(s)\<close> is the conversion of the Python runtime to a binary floating-point
  number. It is a parameter \<open>fl :: string \<Rightarrow> 'f option\<close> of the model, \<open>None\<close> where Python
  raises \<^verbatim>\<open>ValueError\<close>; \<open>'f\<close> is the type of the floating-point values.
\<close>

text \<open>The loop of \<^verbatim>\<open>_parse_progress_info\<close> over \<^verbatim>\<open>enumerate(parts)\<close>: the first
  part equal to \<^verbatim>\<open>Iteration\<close> whose successor holds a slash decides, and the loop ends
  there; with no such part the local \<^verbatim>\<open>current_iteration\<close> keeps its initial 0.\<close>

fun scan_iteration :: "string list \<Rightarrow> exn + int" where
  "scan_iteration [] = Inr 0"
| "scan_iteration [part] = Inr 0"
| "scan_iteration (part # iter_part # rest) =
     (if part = ''Iteration'' \<and> py_in ''/'' iter_part
      then (case py_index (py_split ''/'' iter_part) 0 of
              Inl e \<Rightarrow> Inl e
            | Inr x \<Rightarrow> py_int x)
      else scan_iteration (iter_part # rest))"

text \<open>The first half of \<^verbatim>\<open>_parse_progress_info\<close>: the three locals
  \<^verbatim>\<open>(best_reward, collision_found, current_iteration)\<close> after the \<^verbatim>\<open>if/elif\<close>
  chain, or the exception raised on the way.\<close>

definition parse_line ::
  "(string \<Rightarrow> 'f option) \<Rightarrow> string \<Rightarrow> exn + ('f option \<times> bool \<times> int)" where
  "parse_line fl line_str =
     (if py_in ''Best reward:'' line_str then
        (case py_index (py_split ''Best reward:'' line_str) 1 of
           Inl e \<Rightarrow> Inl e
         | Inr piece \<Rightarrow>
             (case py_index (py_split_ws (py_strip piece)) 0 of
                Inl e \<Rightarrow> Inl e
              | Inr tok \<Rightarrow>
                  (case fl tok of
                     None \<Rightarrow> Inl (ValueError tok)
                   | Some r \<Rightarrow> Inr (Some r, False, 0))))
      else if py_in ''Iteration'' line_str \<and> py_in ''/'' line_str then
        (case scan_iteration (py_split_ws line_str) of
           Inl e \<Rightarrow> Inl e
         | Inr n \<Rightarrow> Inr (None, False, n))
      else if py_in ''collision found'' (py_lower line_str)
              \<or> py_in ''COLLISION FOUND'' line_str then
        Inr (None, True, 0)
      else Inr (None, False, 0))"

section \<open>The registry\<close>

text \<open>Values stored in the dictionaries of the service.\<close>

datatype 'f pyval =
    PyNone
  | PyBool bool
  | PyInt int
  | PyFloat 'f
  | PyStr string
  | PyList "'f pyval list"

type_synonym 'f pydict = "string \<rightharpoonup> 'f pyval"

text \<open>The entry \<^verbatim>\<open>"progress"\<close> of a status dictionary: the key may be missing, the
  value may be \<^verbatim>\<open>None\<close>, or it is a dictionary.\<close>

datatype 'f progress_slot = Absent | IsNone | Dict "'f pydict"

datatype status = Created | Running | Completed | Failed | Stopped

text \<open>One status dictionary of \<^verbatim>\<open>self.experiment_status\<close>. Timestamps are integers
  (a reading of \<^verbatim>\<open>datetime.utcnow()\<close>); \<open>None\<close> is Python's \<^verbatim>\<open>None\<close>.\<close>

record 'f job =
  status :: status
  config :: "'f pydict"
  progress :: "'f progress_slot"
  started_at :: "int option"
  completed_at :: "int option"
  error_message :: "'f pyval"
  output_directory :: "string option"
  notes_field :: "string option"
  tags :: "string list option"

text \<open>A row of the table \<^verbatim>\<open>experiments\<close> (\<^verbatim>\<open>backend/core/database.py\<close>): the
  status and the two timestamps the store sets by itself, and the columns written from
  keyword arguments.\<close>

record 'f experiment_record =
  db_status :: status
  db_started_at :: "int option"
  db_completed_at :: "int option"
  db_columns :: "'f pydict"

text \<open>The task object kept in \<^verbatim>\<open>self.active_experiments\<close>. A task made by
  \<^verbatim>\<open>asyncio.create_task\<close> is \<open>Pending\<close> until the event loop first runs it; from then
  on the coroutine \<^verbatim>\<open>_run_experiment_task\<close> is suspended at an \<^verbatim>\<open>await\<close> inside
  its \<^verbatim>\<open>try\<close> block (\<open>Started\<close>). A task that has ended is no longer in the
  dictionary: the \<^verbatim>\<open>finally\<close> clause removes it.\<close>

datatype task = Pending | Started

record 'f service =
  experiment_status :: "string \<rightharpoonup> 'f job"
  active_experiments :: "string \<rightharpoonup> task"
  database :: "string \<rightharpoonup> 'f experiment_record"

text \<open>The value under a key of a job's progress dictionary, if there is one.\<close>

definition progress_item :: "'f service \<Rightarrow> string \<Rightarrow> string \<Rightarrow> 'f pyval option" where
  "progress_item st experiment_id k =
     (case experiment_status st experiment_id of
        None \<Rightarrow> None
      | Some job \<Rightarrow> (case progress job of Dict d \<Rightarrow> d k | _ \<Rightarrow> None))"

text \<open>The dictionary under \<^verbatim>\<open>"progress"\<close> after the guard
  \<^verbatim>\<open>if "progress" not in d or d["progress"] is None: d["progress"] = {}\<close>.\<close>

definition progress_or_empty :: "'f job \<Rightarrow> 'f pydict" where
  "progress_or_empty job = (case progress job of Dict d \<Rightarrow> d | _ \<Rightarrow> Map.empty)"

text \<open>\<^verbatim>\<open>_parse_progress_info\<close>: a \<^verbatim>\<open>ValueError\<close> or \<^verbatim>\<open>IndexError\<close> of the
  first half is caught and logged, and nothing is stored; otherwise what the line gave is
  merged into the progress of a known job.\<close>

definition parse_progress_info ::
  "(string \<Rightarrow> 'f option) \<Rightarrow> 'f service \<Rightarrow> string \<Rightarrow> string \<Rightarrow> 'f service" where
  "parse_progress_info fl st experiment_id line_str =
     (case parse_line fl line_str of
        Inl e \<Rightarrow> st
      | Inr (best_reward, collision_found, current_iteration) \<Rightarrow>
          (case experiment_status st experiment_id of
             None \<Rightarrow> st
           | Some job \<Rightarrow>
               let p0 = progress_or_empty job;
                   p1 = (case best_reward of
                           None \<Rightarrow> p0
                         | Some r \<Rightarrow> p0(''best_reward'' \<mapsto> PyFloat r));
                   p2 = (if collision_found then p1(''collision_found'' \<mapsto> PyBool True)
                         else p1);
                   p3 = (if current_iteration > 0
                         then p2(''current_iteration'' \<mapsto> PyInt current_iteration)
                         else p2)
               in st\<lparr>experiment_status :=
                      (experiment_status st)(experiment_id \<mapsto> job\<lparr>progress := Dict p3\<rparr>)\<rparr>))"

section \<open>Status updates\<close>

text \<open>\<^verbatim>\<open>d["progress"][k] = v\<close> after
  \<^verbatim>\<open>if "progress" not in d: d["progress"] = {}\<close>, as \<^verbatim>\<open>_update_experiment_status\<close>
  writes it: a \<^verbatim>\<open>None\<close> under the key is not replaced, and the assignment raises.\<close>

definition set_progress_item :: "'f job \<Rightarrow> string \<Rightarrow> 'f pyval \<Rightarrow> exn + 'f job" where
  "set_progress_item job k v =
     (case progress job of
        Absent \<Rightarrow> Inr (job\<lparr>progress := Dict [k \<mapsto> v]\<rparr>)
      | IsNone \<Rightarrow>
          Inl (TypeError (CHR 0x27 # ''NoneType'' @ CHR 0x27 #
                          '' object does not support item assignment''))
      | Dict d \<Rightarrow> Inr (job\<lparr>progress := Dict (d(k \<mapsto> v))\<rparr>))"

text \<open>Keyword arguments are a dictionary in the order of the call: an association list
  with distinct keys.\<close>

type_synonym 'f kwargs = "(string \<times> 'f pyval) list"

text \<open>The loop \<^verbatim>\<open>for key, value in kwargs.items()\<close> of
  \<^verbatim>\<open>_update_experiment_status\<close>. The body of the branch \<^verbatim>\<open>final_reward\<close> assigns
  \<^verbatim>\<open>kwargs["best_reward"]\<close> while the loop runs over \<^verbatim>\<open>kwargs\<close>; the iterator of a
  dictionary compares the size of the dictionary with the size at its creation each time it
  is asked for the next item, the last time included, and raises \<^verbatim>\<open>RuntimeError\<close> when
  they differ. \<open>n\<close> is the size at the start, the first list holds the items not yet
  visited, the second is the dictionary as it is now.\<close>

fun kwargs_loop ::
  "nat \<Rightarrow> 'f kwargs \<Rightarrow> 'f kwargs \<Rightarrow> 'f job \<Rightarrow> exn option \<times> 'f kwargs \<times> 'f job" where
  "kwargs_loop n [] kw status_dict =
     (if length kw \<noteq> n
      then (Some (RuntimeError ''dictionary changed size during iteration''), kw, status_dict)
      else (None, kw, status_dict))"
| "kwargs_loop n ((key, val) # rest) kw status_dict =
     (if length kw \<noteq> n
      then (Some (RuntimeError ''dictionary changed size during iteration''), kw, status_dict)
      else if key = ''error_message''
      then kwargs_loop n rest kw (status_dict\<lparr>error_message := val\<rparr>)
      else if key = ''final_reward''
      then (case set_progress_item status_dict ''best_reward'' val of
              Inl e \<Rightarrow> (Some e, kw, status_dict)
            | Inr d \<Rightarrow> kwargs_loop n rest (AList.update ''best_reward'' val kw) d)
      else if key = ''collision_found''
      then (case set_progress_item status_dict ''collision_found'' val of
              Inl e \<Rightarrow> (Some e, kw, status_dict)
            | Inr d \<Rightarrow> kwargs_loop n rest kw d)
      else kwargs_loop n rest kw status_dict)"

text \<open>The second loop builds \<^verbatim>\<open>db_kwargs\<close>, renaming \<^verbatim>\<open>final_reward\<close>.\<close>

definition db_kwargs :: "'f kwargs \<Rightarrow> 'f kwargs" where
  "db_kwargs kw =
     foldl (\<lambda>acc (key, val).
              if key = ''final_reward'' then AList.update ''best_reward'' val acc
              else AList.update key val acc) [] kw"

text \<open>\<^verbatim>\<open>update_experiment_status\<close> of \<^verbatim>\<open>database.py\<close>. The keyword arguments the
  service passes are \<^verbatim>\<open>error_message\<close>, \<^verbatim>\<open>best_reward\<close> and
  \<^verbatim>\<open>collision_found\<close>; \<^verbatim>\<open>setattr\<close> stores them when the record has an attribute of
  that name. \<open>db_column_names\<close> lists the columns of the table other than the status and the
  three timestamps, which the model keeps in typed fields.\<close>

definition db_column_names :: "string list" where
  "db_column_names =
     [''id'', ''route_id'', ''route_file'', ''search_method'', ''num_iterations'',
      ''timeout_seconds'', ''headless'', ''random_seed'', ''reward_function'',
      ''best_reward'', ''total_iterations'', ''collision_found'', ''output_directory'',
      ''error_message'', ''notes'']"

definition db_update_experiment_status ::
  "(string \<rightharpoonup> 'f experiment_record) \<Rightarrow> int \<Rightarrow> string \<Rightarrow> status \<Rightarrow> 'f kwargs
     \<Rightarrow> (string \<rightharpoonup> 'f experiment_record)" where
  "db_update_experiment_status db now experiment_id new_status kw =
     (case db experiment_id of
        None \<Rightarrow> db
      | Some record0 \<Rightarrow>
          let r1 = record0\<lparr>db_status := new_status\<rparr>;
              r2 = (if new_status = Running \<and> db_started_at r1 = None
                    then r1\<lparr>db_started_at := Some now\<rparr>
                    else if new_status \<in> {Completed, Failed, Stopped}
                            \<and> db_completed_at r1 = None
                    then r1\<lparr>db_completed_at := Some now\<rparr>
                    else r1);
              r3 = foldl (\<lambda>r (key, val).
                            if key \<in> set db_column_names
                            then r\<lparr>db_columns := (db_columns r)(key \<mapsto> val)\<rparr>
                            else r) r2 kw
          in db(experiment_id \<mapsto> r3))"

text \<open>\<^verbatim>\<open>_update_experiment_status\<close> of the service. The result is the exception that
  leaves the function, if any, and the state at that moment. An exception of the store is
  caught and logged by the service, so the store is total here.\<close>

definition update_experiment_status ::
  "'f service \<Rightarrow> int \<Rightarrow> string \<Rightarrow> status \<Rightarrow> 'f kwargs \<Rightarrow> exn option \<times> 'f service" where
  "update_experiment_status st now experiment_id new_status kwargs =
     (case experiment_status st experiment_id of
        None \<Rightarrow> (None, st)
      | Some status_dict \<Rightarrow>
          let d1 = status_dict\<lparr>status := new_status\<rparr>;
              d2 = (if new_status = Running then d1\<lparr>started_at := Some now\<rparr>
                    else if new_status \<in> {Completed, Failed, Stopped}
                    then d1\<lparr>completed_at := Some now\<rparr>
                    else d1)
          in case kwargs_loop (length kwargs) kwargs kwargs d2 of
               (Some e, kw, d3) \<Rightarrow>
                 (Some e,
                  st\<lparr>experiment_status := (experiment_status st)(experiment_id \<mapsto> d3)\<rparr>)
             | (None, kw, d3) \<Rightarrow>
                 (None,
                  st\<lparr>experiment_status := (experiment_status st)(experiment_id \<mapsto> d3),
                     database := db_update_experiment_status (database st) now experiment_id
                                   new_status (db_kwargs kw)\<rparr>))"

section \<open>The supervised task\<close>

text \<open>The block of the supervision loop that runs after each 30-second poll without an
  exit of the child (\<^verbatim>\<open>_run_experiment_task\<close>, under "Update progress if we have
  monitoring info"). The locals \<^verbatim>\<open>best_reward\<close>, \<^verbatim>\<open>collision_found\<close> and
  \<^verbatim>\<open>current_iteration\<close> are set to \<^verbatim>\<open>None\<close>, \<^verbatim>\<open>False\<close> and \<^verbatim>\<open>0\<close> before
  the loop and no statement of the loop assigns them. \<open>elapsed_time\<close> is the difference of
  two clock readings, a floating-point number.\<close>

definition supervision_progress_update :: "'f service \<Rightarrow> string \<Rightarrow> 'f \<Rightarrow> 'f service" where
  "supervision_progress_update st experiment_id elapsed_time =
     (case experiment_status st experiment_id of
        None \<Rightarrow> st
      | Some job \<Rightarrow>
          let best_reward = PyNone;
              collision_found = PyBool False;
              current_iteration = PyInt 0;
              total_iterations =
                (case config job ''num_iterations'' of None \<Rightarrow> PyInt 10 | Some n \<Rightarrow> n);
              p = (progress_or_empty job)
                    (''current_iteration'' \<mapsto> current_iteration,
                     ''total_iterations'' \<mapsto> total_iterations,
                     ''best_reward'' \<mapsto> best_reward,
                     ''collision_found'' \<mapsto> collision_found,
                     ''elapsed_time'' \<mapsto> PyFloat elapsed_time,
                     ''estimated_remaining'' \<mapsto> PyNone,
                     ''recent_rewards'' \<mapsto> PyList [])
          in st\<lparr>experiment_status :=
                 (experiment_status st)(experiment_id \<mapsto> job\<lparr>progress := Dict p\<rparr>)\<rparr>)"

text \<open>\<^verbatim>\<open>str(n)\<close> for an integer and \<^verbatim>\<open>str(e)\<close> for an exception.\<close>

fun str_of_nat :: "nat \<Rightarrow> string" where
  "str_of_nat n =
     (if n < 10 then [''0123456789'' ! n]
      else str_of_nat (n div 10) @ [''0123456789'' ! (n mod 10)])"

definition str_of_int :: "int \<Rightarrow> string" where
  "str_of_int i = (if i < 0 then CHR ''-'' # str_of_nat (nat (- i)) else str_of_nat (nat i))"

fun str_of_exn :: "exn \<Rightarrow> string" where
  "str_of_exn (ValueError m) = m"
| "str_of_exn IndexError = ''list index out of range''"
| "str_of_exn (TypeError m) = m"
| "str_of_exn (RuntimeError m) = m"
| "str_of_exn (KeyError k) = CHR 0x27 # k @ [CHR 0x27]"
| "str_of_exn (Exception m) = m"

text \<open>The \<^verbatim>\<open>finally\<close> clause of \<^verbatim>\<open>_run_experiment_task\<close>.\<close>

definition task_cleanup :: "'f service \<Rightarrow> string \<Rightarrow> 'f service" where
  "task_cleanup st experiment_id =
     st\<lparr>active_experiments := (active_experiments st)(experiment_id := None)\<rparr>"

text \<open>The handler \<^verbatim>\<open>except Exception as e\<close> followed by the \<^verbatim>\<open>finally\<close> clause:
  the job is marked failed with the text of the exception.\<close>

definition task_failed :: "'f service \<Rightarrow> int \<Rightarrow> string \<Rightarrow> exn \<Rightarrow> 'f service" where
  "task_failed st now experiment_id e =
     task_cleanup
       (snd (update_experiment_status st now experiment_id Failed
               [(''error_message'', PyStr (str_of_exn e))]))
       experiment_id"

text \<open>The end of \<^verbatim>\<open>_run_experiment_task\<close> once the child has exited with
  \<open>return_code\<close>. \<open>results_file\<close> is the artifact \<^verbatim>\<open>best_solution.json\<close>: \<open>None\<close> when
  it does not exist, \<open>Some (Inl e)\<close> when opening or reading it raises, \<open>Some (Inr d)\<close> when
  it holds the dictionary \<open>d\<close>. \<open>now\<close> is the clock at the update to completed, \<open>later\<close> the
  clock in the exception handler.\<close>

definition task_exited ::
  "'f service \<Rightarrow> int \<Rightarrow> int \<Rightarrow> string \<Rightarrow> int \<Rightarrow> (exn + 'f pydict) option \<Rightarrow> 'f service" where
  "task_exited st now later experiment_id return_code results_file =
     (if return_code = 0 then
        (case results_file of
           Some (Inl e) \<Rightarrow> task_failed st later experiment_id e
         | _ \<Rightarrow>
             let results = (case results_file of Some (Inr d) \<Rightarrow> d | _ \<Rightarrow> Map.empty);
                 best_reward = (case results ''best_reward'' of None \<Rightarrow> PyNone | Some v \<Rightarrow> v);
                 collision_found =
                   (case results ''collision_found'' of None \<Rightarrow> PyBool False | Some v \<Rightarrow> v)
             in case update_experiment_status st now experiment_id Completed
                       [(''final_reward'', best_reward), (''collision_found'', collision_found)] of
                  (None, st1) \<Rightarrow> task_cleanup st1 experiment_id
                | (Some e, st1) \<Rightarrow> task_failed st1 later experiment_id e)
      else task_failed st later experiment_id
             (Exception (''Experiment subprocess failed with return code ''
                         @ str_of_int return_code)))"

text \<open>\<^verbatim>\<open>task.cancel()\<close> followed by \<^verbatim>\<open>await task\<close>. A pending task is cancelled
  before its coroutine runs a single statement. A started task receives
  \<^verbatim>\<open>CancelledError\<close> at its \<^verbatim>\<open>await\<close>: the handler stops the child and raises again,
  and the \<^verbatim>\<open>finally\<close> clause runs.\<close>

definition cancel_task :: "'f service \<Rightarrow> string \<Rightarrow> task \<Rightarrow> 'f service" where
  "cancel_task st experiment_id t =
     (case t of Pending \<Rightarrow> st | Started \<Rightarrow> task_cleanup st experiment_id)"

text \<open>The event loop runs a pending task up to its first \<^verbatim>\<open>await\<close>.\<close>

definition task_begins :: "'f service \<Rightarrow> string \<Rightarrow> 'f service" where
  "task_begins st experiment_id =
     (case active_experiments st experiment_id of
        Some Pending \<Rightarrow>
          st\<lparr>active_experiments := (active_experiments st)(experiment_id \<mapsto> Started)\<rparr>
      | _ \<Rightarrow> st)"

section \<open>The facade\<close>

definition start_experiment :: "'f service \<Rightarrow> int \<Rightarrow> string \<Rightarrow> exn option \<times> 'f service" where
  "start_experiment st now experiment_id =
     (if experiment_id \<notin> dom (experiment_status st)
      then (Some (ValueError (''Experiment '' @ experiment_id @ '' not found'')), st)
      else if experiment_id \<in> dom (active_experiments st)
      then (Some (ValueError (''Experiment '' @ experiment_id @ '' is already running'')), st)
      else (case update_experiment_status st now experiment_id Running [] of
              (Some e, st1) \<Rightarrow> (Some e, st1)
            | (None, st1) \<Rightarrow>
                (None,
                 st1\<lparr>active_experiments :=
                       (active_experiments st1)(experiment_id \<mapsto> Pending)\<rparr>)))"

definition stop_experiment :: "'f service \<Rightarrow> int \<Rightarrow> string \<Rightarrow> exn option \<times> 'f service" where
  "stop_experiment st now experiment_id =
     (case active_experiments st experiment_id of
        None \<Rightarrow> (Some (ValueError (''Experiment '' @ experiment_id @ '' is not running'')), st)
      | Some t \<Rightarrow>
          let st1 = cancel_task st experiment_id t
          in if experiment_id \<notin> dom (active_experiments st1)
             then (Some (KeyError experiment_id), st1)
             else update_experiment_status (task_cleanup st1 experiment_id) now
                    experiment_id Stopped [])"

text \<open>\<^verbatim>\<open>update_experiment\<close>: notes and tags only.\<close>

definition update_experiment ::
  "'f service \<Rightarrow> string \<Rightarrow> string option \<Rightarrow> string list option \<Rightarrow> 'f service" where
  "update_experiment st experiment_id new_notes new_tags =
     (case experiment_status st experiment_id of
        None \<Rightarrow> st
      | Some status_dict \<Rightarrow>
          let d1 = (case new_notes of None \<Rightarrow> status_dict
                    | Some n \<Rightarrow> status_dict\<lparr>notes_field := Some n\<rparr>);
              d2 = (case new_tags of None \<Rightarrow> d1 | Some t \<Rightarrow> d1\<lparr>tags := Some t\<rparr>)
          in st\<lparr>experiment_status := (experiment_status st)(experiment_id \<mapsto> d2)\<rparr>)"

section \<open>Files of a job\<close>

text \<open>A \<^verbatim>\<open>pathlib\<close> path on a POSIX system: whether it starts at the root, and its
  components. The constructor drops empty components and single dots and keeps \<^verbatim>\<open>..\<close>.\<close>

datatype path = Path (is_absolute: bool) (parts: "string list")

definition path_of_string :: "string \<Rightarrow> path" where
  "path_of_string s =
     Path (prefix ''/'' s) (filter (\<lambda>p. p \<noteq> [] \<and> p \<noteq> ''.'') (py_split ''/'' s))"

text \<open>\<^verbatim>\<open>p / q\<close>: an absolute right operand replaces the left one.\<close>

definition joinpath :: "path \<Rightarrow> path \<Rightarrow> path" where
  "joinpath p q = (if is_absolute q then q else Path (is_absolute p) (parts p @ parts q))"

text \<open>What the service asks of the file system. \<open>fs_resolve\<close> is \<^verbatim>\<open>Path.resolve\<close>: the
  components of the absolute path with symbolic links followed and \<^verbatim>\<open>..\<close> removed.
  \<open>fs_iterdir\<close> gives the names in a directory, \<open>fs_json_load\<close> the content of a JSON file
  that holds an object, or the exception raised on reading it.\<close>

record 'f filesystem =
  fs_exists :: "path \<Rightarrow> bool"
  fs_is_file :: "path \<Rightarrow> bool"
  fs_iterdir :: "path \<Rightarrow> string list"
  fs_resolve :: "path \<Rightarrow> string list"
  fs_json_load :: "path \<Rightarrow> exn + 'f pydict"

text \<open>\<^verbatim>\<open>Path.resolve\<close> on a file system without symbolic links, with working directory
  \<open>cwd\<close>.\<close>

definition lexical_resolve :: "string list \<Rightarrow> path \<Rightarrow> string list" where
  "lexical_resolve cwd p =
     foldl (\<lambda>acc c. if c = ''..'' then butlast acc else acc @ [c])
       (if is_absolute p then [] else cwd) (parts p)"

text \<open>Modelled from the spec: the constructor \<^verbatim>\<open>ExperimentStatus(**status_dict)\<close> of
  \<^verbatim>\<open>models/experiment.py\<close>, which is not among the sources. Section 4.6 has
  \<^verbatim>\<open>get(id) -> Job?\<close> as a pure read of the registry, so \<^verbatim>\<open>get_experiment\<close> gives
  the stored status dictionary of a known id.\<close>

definition get_experiment :: "'f service \<Rightarrow> string \<Rightarrow> 'f job option" where
  "get_experiment st experiment_id = experiment_status st experiment_id"

text \<open>\<^verbatim>\<open>Path(experiment.output_directory or "")\<close>\<close>

definition output_dir_of :: "'f job \<Rightarrow> path" where
  "output_dir_of experiment =
     path_of_string (case output_directory experiment of None \<Rightarrow> [] | Some d \<Rightarrow> d)"

text \<open>\<^verbatim>\<open>get_experiment_file_path\<close>: \<^verbatim>\<open>relative_to\<close> raises \<^verbatim>\<open>ValueError\<close>
  unless the components of its argument are an initial segment of the components of the
  path.\<close>

definition get_experiment_file_path ::
  "'f filesystem \<Rightarrow> 'f service \<Rightarrow> string \<Rightarrow> string \<Rightarrow> path option" where
  "get_experiment_file_path fs st experiment_id filename =
     (case get_experiment st experiment_id of
        None \<Rightarrow> None
      | Some experiment \<Rightarrow>
          let output_dir = output_dir_of experiment;
              file_path = joinpath output_dir (path_of_string filename)
          in if prefix (fs_resolve fs output_dir) (fs_resolve fs file_path)
             then (if fs_exists fs file_path then Some file_path else None)
             else None)"

text \<open>\<^verbatim>\<open>_list_result_files\<close>\<close>

definition list_result_files :: "'f filesystem \<Rightarrow> path \<Rightarrow> string list" where
  "list_result_files fs output_dir =
     (if \<not> fs_exists fs output_dir then []
      else sort (filter (\<lambda>name. fs_is_file fs (joinpath output_dir (Path False [name])))
                   (fs_iterdir fs output_dir)))"

text \<open>The fields of \<^verbatim>\<open>ExperimentResult\<close> as \<^verbatim>\<open>get_experiment_results\<close> passes
  them; the output directory is kept as the path that \<^verbatim>\<open>str\<close> would print.\<close>

record 'f experiment_result =
  res_experiment_id :: string
  res_final_status :: status
  res_total_iterations :: "'f pyval"
  res_best_reward :: "'f pyval"
  res_best_parameters :: "'f pyval"
  res_collision_found :: "'f pyval"
  res_collision_details :: "'f pyval"
  res_total_duration :: "'f pyval"
  res_average_iteration_time :: "'f pyval"
  res_min_reward :: "'f pyval"
  res_max_reward :: "'f pyval"
  res_mean_reward :: "'f pyval"
  res_std_reward :: "'f pyval"
  res_result_files :: "string list"
  res_output_directory :: path

text \<open>\<^verbatim>\<open>d.get(k)\<close> and \<^verbatim>\<open>d.get(k, default)\<close>\<close>

definition dict_get :: "'f pydict \<Rightarrow> string \<Rightarrow> 'f pyval \<Rightarrow> 'f pyval" where
  "dict_get d k dflt = (case d k of None \<Rightarrow> dflt | Some v \<Rightarrow> v)"

definition get_experiment_results ::
  "'f filesystem \<Rightarrow> 'f service \<Rightarrow> string \<Rightarrow> exn + 'f experiment_result option" where
  "get_experiment_results fs st experiment_id =
     (case get_experiment st experiment_id of
        None \<Rightarrow> Inr None
      | Some experiment \<Rightarrow>
          let output_dir = output_dir_of experiment;
              best_solution_file = joinpath output_dir (path_of_string ''best_solution.json'');
              loaded = (if fs_exists fs best_solution_file
                        then fs_json_load fs best_solution_file
                        else Inr Map.empty)
          in case loaded of
               Inl e \<Rightarrow> Inl e
             | Inr best_solution_data \<Rightarrow>
                 Inr (Some \<lparr>
                   res_experiment_id = experiment_id,
                   res_final_status = status experiment,
                   res_total_iterations = dict_get best_solution_data ''total_iterations'' (PyInt 0),
                   res_best_reward = dict_get best_solution_data ''best_reward'' PyNone,
                   res_best_parameters = dict_get best_solution_data ''best_parameters'' PyNone,
                   res_collision_found =
                     dict_get best_solution_data ''collision_found'' (PyBool False),
                   res_collision_details = PyNone,
                   res_total_duration = dict_get best_solution_data ''total_duration'' PyNone,
                   res_average_iteration_time =
                     dict_get best_solution_data ''average_iteration_time'' PyNone,
                   res_min_reward = dict_get best_solution_data ''min_reward'' PyNone,
                   res_max_reward = dict_get best_solution_data ''max_reward'' PyNone,
                   res_mean_reward = dict_get best_solution_data ''mean_reward'' PyNone,
                   res_std_reward = dict_get best_solution_data ''std_reward'' PyNone,
                   res_result_files = list_result_files fs output_dir,
                   res_output_directory = output_dir\<rparr>))"

section \<open>Creating a job\<close>

text \<open>\<^verbatim>\<open>create_experiment\<close>, with the fresh identifier and the output directory as
  arguments: the row saved in the store (status \<^verbatim>\<open>created\<close>, no timestamps of start
  or completion) and the status dictionary kept in memory (\<^verbatim>\<open>progress=None\<close>).\<close>

definition create_experiment ::
  "'f service \<Rightarrow> string \<Rightarrow> 'f pydict \<Rightarrow> string \<Rightarrow> 'f service" where
  "create_experiment st experiment_id cfg output_dir =
     st\<lparr>experiment_status := (experiment_status st)(experiment_id \<mapsto>
            \<lparr>status = Created, config = cfg, progress = IsNone, started_at = None,
             completed_at = None, error_message = PyNone,
             output_directory = Some output_dir, notes_field = None, tags = None\<rparr>),
        database := (database st)(experiment_id \<mapsto>
            \<lparr>db_status = Created, db_started_at = None, db_completed_at = None,
             db_columns = (cfg |` set db_column_names)
                            (''id'' \<mapsto> PyStr experiment_id,
                             ''output_directory'' \<mapsto> PyStr output_dir)\<rparr>)\<rparr>"

definition empty_service :: "'f service" where
  "empty_service =
     \<lparr>experiment_status = Map.empty, active_experiments = Map.empty, database = Map.empty\<rparr>"

text \<open>A service with the single job \<^verbatim>\<open>e1\<close>, just created.\<close>

definition service1 :: "'f service" where
  "service1 =
     create_experiment empty_service ''e1'' [''num_iterations'' \<mapsto> PyInt 20]
       ''/out/experiment_e1''"

text \<open>A finite part of \<^verbatim>\<open>float\<close> for the examples: two literals with the numbers they
  denote exactly.\<close>

definition float_table :: "string \<Rightarrow> rat option" where
  "float_table = map_of [(''3.5'', 7 / 2), (''1.0'', 1)]"




text \<open>A sequence of merges: \<^verbatim>\<open>_parse_progress_info\<close> called with one line after the
  other, whichever channel the lines come from.\<close>

definition merge_lines ::
  "(string \<Rightarrow> 'f option) \<Rightarrow> 'f service \<Rightarrow> string \<Rightarrow> string list \<Rightarrow> 'f service" where
  "merge_lines fl st experiment_id ls =
     foldl (\<lambda>s line_str. parse_progress_info fl s experiment_id line_str) st ls"









section \<open>A run of the job \<^verbatim>\<open>e1\<close>\<close>

text \<open>The job is started at time 1 and its task reaches the supervision loop; the child
  exits with code 1 at time 2; the job is started again at time 3 and the child exits with
  code 1 again at time 4.\<close>

definition run1 :: "rat service" where
  "run1 = task_begins (snd (start_experiment service1 1 ''e1'')) ''e1''"

definition failed1 :: "rat service" where
  "failed1 = task_exited run1 2 2 ''e1'' 1 None"

definition run2 :: "rat service" where
  "run2 = task_begins (snd (start_experiment failed1 3 ''e1'')) ''e1''"

definition failed2 :: "rat service" where
  "failed2 = task_exited run2 4 4 ''e1'' 1 None"

text \<open>The fields of the job \<^verbatim>\<open>e1\<close> that the claims are about, in memory and in the
  store.\<close>

definition job_view :: "'f service \<Rightarrow> string \<Rightarrow> (status \<times> int option \<times> int option) option" where
  "job_view st experiment_id =
     map_option (\<lambda>j. (status j, started_at j, completed_at j))
       (experiment_status st experiment_id)"

definition record_view ::
  "'f service \<Rightarrow> string \<Rightarrow> (status \<times> int option \<times> int option) option" where
  "record_view st experiment_id =
     map_option (\<lambda>r. (db_status r, db_started_at r, db_completed_at r))
       (database st experiment_id)"

definition status_of :: "'f service \<Rightarrow> string \<Rightarrow> status option" where
  "status_of st experiment_id = map_option status (experiment_status st experiment_id)"

section \<open>A file system for the examples\<close>

text \<open>No symbolic links, working directory \<^verbatim>\<open>/srv\<close>. The output directory of the job
  \<^verbatim>\<open>e1\<close> holds the files \<^verbatim>\<open>run.log\<close> and \<^verbatim>\<open>experiment_config.json\<close> (listed in
  this order) and the directory \<^verbatim>\<open>plots\<close>, and no \<^verbatim>\<open>best_solution.json\<close>; beside it
  lies the file \<^verbatim>\<open>/out/secret\<close>.\<close>

definition fs1_files :: "string list list" where
  "fs1_files =
     [[''out'', ''secret''],
      [''out'', ''experiment_e1'', ''run.log''],
      [''out'', ''experiment_e1'', ''experiment_config.json'']]"

definition fs1_directories :: "string list list" where
  "fs1_directories =
     [[], [''srv''], [''out''], [''out'', ''experiment_e1''],
      [''out'', ''experiment_e1'', ''plots'']]"

definition fs1 :: "rat filesystem" where
  "fs1 =
     \<lparr>fs_exists = (\<lambda>p. lexical_resolve [''srv''] p \<in> set (fs1_files @ fs1_directories)),
      fs_is_file = (\<lambda>p. lexical_resolve [''srv''] p \<in> set fs1_files),
      fs_iterdir = (\<lambda>p. if lexical_resolve [''srv''] p = [''out'', ''experiment_e1'']
                          then [''run.log'', ''plots'', ''experiment_config.json''] else []),
      fs_resolve = lexical_resolve [''srv''],
      fs_json_load = (\<lambda>p. Inl (ValueError ''Expecting value''))\<rparr>"

text \<open>A field of the result that \<^verbatim>\<open>get_experiment_results\<close> returns, when it returns
  one.\<close>

definition result_field ::
  "('f experiment_result \<Rightarrow> 'a) \<Rightarrow> exn + 'f experiment_result option \<Rightarrow> 'a option" where
  "result_field f x = (case x of Inr (Some r) \<Rightarrow> Some (f r) | _ \<Rightarrow> None)"

section \<open>Properties\<close>

subsection \<open>Facts shared by the proofs\<close>

lemma service1_e1:
  "experiment_status (service1 :: 'f service) ''e1'' =
     Some \<lparr>status = Created, config = [''num_iterations'' \<mapsto> PyInt 20], progress = IsNone,
           started_at = None, completed_at = None, error_message = PyNone,
           output_directory = Some ''/out/experiment_e1'', notes_field = None, tags = None\<rparr>"
  by (simp add: service1_def create_experiment_def empty_service_def)

lemma parse_line_iteration_7_20: "parse_line fl ''Iteration 7/20'' = Inr (None, False, 7)"
  by (simp add: parse_line_def py_split_ws_def py_isspace_def whitespace_chars_def
      py_split_def py_int_def py_strip_def parse_digitpart_def digit_of_def)

lemma parse_line_reward_shape:
  assumes "py_in ''Best reward:'' line_str"
  shows "(\<exists>e. parse_line fl line_str = Inl e)
       \<or> (\<exists>r. parse_line fl line_str = Inr (Some r, False, 0))"
  using assms by (auto simp: parse_line_def split: sum.splits option.splits)

lemma split_sep_no_occurrence:
  "\<not> py_in sep s \<Longrightarrow> split_sep_aux sep acc s = [rev acc @ s]"
  by (induction s arbitrary: acc) auto

lemma prefix_shorter_append:
  assumes "prefix sep (xs @ sep @ rest)" and "xs \<noteq> []"
  shows "prefix sep (xs @ butlast sep)"
proof -
  from assms(1) have "sep = take (length sep) (xs @ sep @ rest)"
    by (metis append_eq_conv_conj prefix_def)
  also have "\<dots> = take (length sep) (xs @ butlast sep)"
    using assms(2) by (cases xs) (auto simp: take_Cons' butlast_conv_take min_def)
  finally show ?thesis by (metis take_is_prefix)
qed

lemma split_sep_first_occurrence:
  assumes "sep \<noteq> []" and "\<not> py_in sep (pre @ butlast sep)"
  shows "split_sep_aux sep acc (pre @ sep @ rest) = (rev acc @ pre) # split_sep_aux sep [] rest"
  using assms(2)
proof (induction pre arbitrary: acc)
  case Nil
  with assms(1) show ?case by (cases sep) auto
next
  case (Cons c pre)
  then have np: "\<not> prefix sep ((c # pre) @ butlast sep)"
    and rest: "\<not> py_in sep (pre @ butlast sep)" by auto
  from np have "\<not> prefix sep ((c # pre) @ sep @ rest)"
    using prefix_shorter_append [of sep "c # pre" rest] by blast
  then show ?case using Cons.IH [OF rest] by simp
qed

lemma parse_line_iteration_5_20: "parse_line fl ''Iteration 5/20'' = Inr (None, False, 5)"
  by (simp add: parse_line_def py_split_ws_def py_isspace_def whitespace_chars_def
      py_split_def py_int_def py_strip_def parse_digitpart_def digit_of_def)

lemma py_in_prefix: "py_in sep (sep @ rest)"
proof (cases "sep @ rest")
  case Nil
  then show ?thesis by simp
next
  case (Cons c cs)
  have "prefix sep (sep @ rest)" by simp
  then show ?thesis unfolding Cons by simp
qed

lemma py_in_append: "py_in sep (pre @ sep @ rest)"
  by (induction pre) (auto simp: py_in_prefix)

lemma split_sep_skip:
  assumes "sep \<noteq> []" and "\<forall>c\<in>set xs. c \<noteq> hd sep"
  shows "split_sep_aux sep acc (xs @ ys) = split_sep_aux sep (rev xs @ acc) ys"
  using assms(2)
proof (induction xs arbitrary: acc)
  case Nil
  then show ?case by simp
next
  case (Cons c xs)
  then have "c \<noteq> hd sep" by simp
  with assms(1) have "\<not> prefix sep (c # xs @ ys)"
    by (cases sep) auto
  with Cons show ?case by simp
qed

lemma split_sep_head:
  "\<exists>p tl. split_sep_aux sep acc s = (rev acc @ p) # tl \<and> prefix p s"
proof (induction s arbitrary: acc)
  case Nil
  then show ?case by simp
next
  case (Cons c s)
  show ?case
  proof (cases "sep \<noteq> [] \<and> prefix sep (c # s)")
    case True
    then show ?thesis by auto
  next
    case False
    from Cons [of "c # acc"] obtain p tl where
      "split_sep_aux sep (c # acc) s = (rev (c # acc) @ p) # tl" "prefix p s" by blast
    with False show ?thesis by (intro exI [of _ "c # p"]) auto
  qed
qed

lemma split_ws_token:
  assumes "\<forall>c\<in>set tok. \<not> py_isspace c"
  shows "split_ws_aux acc (tok @ r) = split_ws_aux (rev tok @ acc) r"
  using assms by (induction tok arbitrary: acc) auto

lemma split_ws_first:
  assumes "tok \<noteq> []" and "\<forall>c\<in>set tok. \<not> py_isspace c" and "r = [] \<or> py_isspace (hd r)"
  shows "\<exists>more. py_split_ws (tok @ r) = tok # more"
proof (cases r)
  case Nil
  then show ?thesis
    using assms(1) split_ws_token [OF assms(2), of "[]" "[]"] by (simp add: py_split_ws_def)
next
  case (Cons c cs)
  then show ?thesis
    using assms split_ws_token [OF assms(2), of "[]" "c # cs"] by (simp add: py_split_ws_def)
qed

lemma strip_token:
  assumes "\<forall>c\<in>set ws. py_isspace c" and "tok \<noteq> []" and "\<forall>c\<in>set tok. \<not> py_isspace c"
  shows "\<exists>r. py_strip (ws @ tok @ p) = tok @ r \<and> prefix r p"
proof -
  have hd: "\<not> py_isspace (hd tok)" using assms(2,3) by (cases tok) auto
  have l: "dropWhile py_isspace (ws @ tok @ p) = tok @ p"
    using assms(1,2) hd by (cases tok) (auto simp: dropWhile_append)
  have last: "\<not> py_isspace (hd (rev tok))" using assms(2,3)
    by (metis hd_rev last_in_set)
  have "dropWhile py_isspace (rev p @ rev tok) = dropWhile py_isspace (rev p) @ rev tok"
    using assms(2) last by (cases "rev tok") (auto simp: dropWhile_append)
  then have "py_strip (ws @ tok @ p) = tok @ rev (dropWhile py_isspace (rev p))"
    by (simp add: py_strip_def l)
  moreover have "prefix (rev (dropWhile py_isspace (rev p))) p"
    by (metis prefix_def rev_append rev_rev_ident takeWhile_dropWhile_id)
  ultimately show ?thesis by blast
qed

lemma split_reward_line:
  assumes "\<not> py_in sep (pre @ butlast sep)" and "sep \<noteq> []"
    and "\<forall>c\<in>set mid. c \<noteq> hd sep"
  shows "\<exists>p tl. py_split sep (pre @ sep @ mid @ rest) = pre # (mid @ p) # tl \<and> prefix p rest"
proof -
  have "py_split sep (pre @ sep @ mid @ rest) = pre # split_sep_aux sep [] (mid @ rest)"
    unfolding py_split_def
    using split_sep_first_occurrence [OF assms(2,1), of "[]" "mid @ rest"] by simp
  moreover have "split_sep_aux sep [] (mid @ rest) = split_sep_aux sep (rev mid) rest"
    using split_sep_skip [OF assms(2,3), of "[]" rest] by simp
  moreover obtain p tl where "split_sep_aux sep (rev mid) rest = (rev (rev mid) @ p) # tl"
    and "prefix p rest"
    using split_sep_head [of sep "rev mid" rest] by blast
  ultimately show ?thesis by simp
qed

lemma parse_line_reward:
  assumes "line_str = pre @ ''Best reward:'' @ ws @ tok @ rest"
    and "\<not> py_in ''Best reward:'' (pre @ ''Best reward'')"
    and "\<forall>c\<in>set ws. py_isspace c"
    and "tok \<noteq> []" and "\<forall>c\<in>set tok. \<not> py_isspace c \<and> c \<noteq> CHR ''B''"
    and "rest = [] \<or> py_isspace (hd rest)"
    and "fl tok = Some r"
  shows "parse_line fl line_str = Inr (Some r, False, 0)"
proof -
  define sep where "sep = ''Best reward:''"
  have sep: "sep \<noteq> []" "butlast sep = ''Best reward''" "hd sep = CHR ''B''"
    by (simp_all add: sep_def)
  have l: "line_str = pre @ sep @ (ws @ tok) @ rest"
    by (simp add: assms(1) sep_def)
  have "in": "py_in sep line_str"
    unfolding l by (rule py_in_append)
  have "\<not> py_isspace (CHR ''B'')"
    by (simp add: py_isspace_def whitespace_chars_def)
  with assms(3,5) have noB: "\<forall>c\<in>set (ws @ tok). c \<noteq> hd sep"
    unfolding sep(3) by auto
  have first: "\<not> py_in sep (pre @ butlast sep)"
  proof -
    have "pre @ butlast sep = pre @ ''Best reward''" by (simp only: sep(2))
    moreover have "\<not> py_in sep (pre @ ''Best reward'')"
      unfolding sep_def by (rule assms(2))
    ultimately show ?thesis by metis
  qed
  from split_reward_line [OF first sep(1) noB, of rest] obtain p tl where
    sp: "py_split sep line_str = pre # ((ws @ tok) @ p) # tl" and p: "prefix p rest"
    unfolding l by blast
  have tokns: "\<forall>c\<in>set tok. \<not> py_isspace c" using assms(5) by blast
  from strip_token [OF assms(3,4) tokns, of p] obtain q where
    q: "py_strip (ws @ tok @ p) = tok @ q" "prefix q p" by blast
  have "q = [] \<or> py_isspace (hd q)"
    using q(2) p assms(6) by (cases q) (auto simp: prefix_def)
  from split_ws_first [OF assms(4) tokns this] obtain more where
    m: "py_split_ws (tok @ q) = tok # more" by blast
  have "parse_line fl line_str =
      (case py_index (py_split sep line_str) 1 of
           Inl e \<Rightarrow> Inl e
         | Inr piece \<Rightarrow>
             (case py_index (py_split_ws (py_strip piece)) 0 of
                Inl e \<Rightarrow> Inl e
              | Inr tok \<Rightarrow>
                  (case fl tok of
                     None \<Rightarrow> Inl (ValueError tok)
                   | Some r \<Rightarrow> Inr (Some r, False, 0))))"
    using "in" unfolding sep_def parse_line_def by (simp only: if_True)
  also have "\<dots> = Inr (Some r, False, 0)"
    unfolding sp by (simp add: q(1) m assms(7))
  finally show ?thesis .
qed




lemma parse_known:
  assumes "experiment_status st experiment_id = Some job"
  shows "\<exists>job'. experiment_status (parse_progress_info fl st experiment_id line_str)
           experiment_id = Some job'"
proof (cases "parse_line fl line_str")
  case (Inl e)
  with assms show ?thesis by (simp add: parse_progress_info_def)
next
  case (Inr t)
  obtain b c i where t: "t = (b, c, i)" by (cases t)
  show ?thesis using assms Inr t by (simp add: parse_progress_info_def Let_def)
qed




lemma merge_lines_append:
  "merge_lines fl st experiment_id (xs @ ys)
   = merge_lines fl (merge_lines fl st experiment_id xs) experiment_id ys"
  by (simp add: merge_lines_def)

lemma merge_lines_known:
  assumes "experiment_status st experiment_id = Some job"
  shows "\<exists>job'. experiment_status (merge_lines fl st experiment_id ls) experiment_id = Some job'"
  using assms
proof (induction ls arbitrary: st job)
  case Nil
  then show ?case by (simp add: merge_lines_def)
next
  case (Cons l ls)
  from parse_known [OF Cons.prems, of fl l] obtain job' where
    "experiment_status (parse_progress_info fl st experiment_id l) experiment_id = Some job'" ..
  from Cons.IH [OF this] show ?case by (simp add: merge_lines_def)
qed











lemma parser_keeps_collision_latch:
  assumes "progress_item st j ''collision_found'' = Some (PyBool True)"
  shows "progress_item (parse_progress_info fl st experiment_id line_str) j
           ''collision_found'' = Some (PyBool True)"
proof (cases "parse_line fl line_str")
  case (Inl e)
  with assms show ?thesis by (auto simp: parse_progress_info_def)
next
  case (Inr t)
  obtain b c i where t: "t = (b, c, i)" by (cases t)
  show ?thesis
    using assms Inr t
    by (auto simp: parse_progress_info_def progress_item_def progress_or_empty_def Let_def
        split: option.splits progress_slot.splits)
qed

lemmas run_defs = start_experiment_def update_experiment_status_def task_begins_def
  task_exited_def task_failed_def task_cleanup_def db_update_experiment_status_def
  db_kwargs_def db_column_names_def service1_def create_experiment_def empty_service_def
  job_view_def record_view_def Let_def

lemma run1_view:
  "job_view run1 ''e1'' = Some (Running, Some 1, None)"
  "record_view run1 ''e1'' = Some (Running, Some 1, None)"
  "active_experiments run1 ''e1'' = Some Started"
  by (simp_all add: run1_def run_defs)

lemma failed1_view:
  "job_view failed1 ''e1'' = Some (Failed, Some 1, Some 2)"
  "record_view failed1 ''e1'' = Some (Failed, Some 1, Some 2)"
  "active_experiments failed1 ''e1'' = None"
  by (simp_all add: failed1_def run1_def run_defs)

lemma run2_view:
  "job_view run2 ''e1'' = Some (Running, Some 3, Some 2)"
  "record_view run2 ''e1'' = Some (Running, Some 1, Some 2)"
  "active_experiments run2 ''e1'' = Some Started"
  by (simp_all add: run2_def failed1_def run1_def run_defs)

lemma failed2_view:
  "job_view failed2 ''e1'' = Some (Failed, Some 3, Some 4)"
  "record_view failed2 ''e1'' = Some (Failed, Some 1, Some 2)"
  by (simp_all add: failed2_def run2_def failed1_def run1_def run_defs)

lemma stop_run1:
  "fst (stop_experiment run1 5 ''e1'') = Some (KeyError ''e1'')"
  "job_view (snd (stop_experiment run1 5 ''e1'')) ''e1'' = Some (Running, Some 1, None)"
  "active_experiments (snd (stop_experiment run1 5 ''e1'')) ''e1'' = None"
  by (simp_all add: stop_experiment_def cancel_task_def run1_def run_defs)

lemma start_unknown:
  "experiment_status st experiment_id = None \<Longrightarrow>
   start_experiment st now experiment_id =
     (Some (ValueError (''Experiment '' @ experiment_id @ '' not found'')), st)"
  by (simp add: start_experiment_def dom_def)

lemma start_already_running:
  "experiment_status st experiment_id = Some job \<Longrightarrow>
   active_experiments st experiment_id = Some t \<Longrightarrow>
   start_experiment st now experiment_id =
     (Some (ValueError (''Experiment '' @ experiment_id @ '' is already running'')), st)"
  by (auto simp: start_experiment_def dom_def)

lemma start_ok:
  assumes "experiment_status st experiment_id = Some job"
    and "active_experiments st experiment_id = None"
  shows "fst (start_experiment st now experiment_id) = None"
    and "job_view (snd (start_experiment st now experiment_id)) experiment_id
         = Some (Running, Some now, completed_at job)"
    and "active_experiments (snd (start_experiment st now experiment_id)) experiment_id
         = Some Pending"
  using assms
  by (auto simp: start_experiment_def update_experiment_status_def job_view_def Let_def dom_def)

lemma stop_not_running:
  "active_experiments st experiment_id = None \<Longrightarrow>
   stop_experiment st now experiment_id =
     (Some (ValueError (''Experiment '' @ experiment_id @ '' is not running'')), st)"
  by (simp add: stop_experiment_def)

lemma stop_pending:
  assumes "experiment_status st experiment_id = Some job"
    and "active_experiments st experiment_id = Some Pending"
  shows "fst (stop_experiment st now experiment_id) = None"
    and "job_view (snd (stop_experiment st now experiment_id)) experiment_id
         = Some (Stopped, started_at job, Some now)"
    and "active_experiments (snd (stop_experiment st now experiment_id)) experiment_id = None"
  using assms
  by (auto simp: stop_experiment_def cancel_task_def task_cleanup_def
      update_experiment_status_def job_view_def Let_def dom_def)

lemma stop_started:
  assumes "active_experiments st experiment_id = Some Started"
  shows "stop_experiment st now experiment_id
         = (Some (KeyError experiment_id), task_cleanup st experiment_id)"
  using assms
  by (auto simp: stop_experiment_def cancel_task_def task_cleanup_def dom_def)

lemma e1_dir: "path_of_string ''/out/experiment_e1'' = Path True [''out'', ''experiment_e1'']"
  by (simp add: path_of_string_def py_split_def)

lemma service1_get:
  "get_experiment (service1 :: rat service) ''e1'' =
     Some \<lparr>status = Created, config = [''num_iterations'' \<mapsto> PyInt 20], progress = IsNone,
           started_at = None, completed_at = None, error_message = PyNone,
           output_directory = Some ''/out/experiment_e1'', notes_field = None, tags = None\<rparr>"
  by (simp add: get_experiment_def service1_e1)

lemma secret_path:
  "joinpath (Path True [''out'', ''experiment_e1'']) (path_of_string ''../secret'')
   = Path True [''out'', ''experiment_e1'', ''..'', ''secret'']"
  by (simp add: path_of_string_def py_split_def joinpath_def)

lemma config_path:
  "joinpath (Path True [''out'', ''experiment_e1'']) (path_of_string ''experiment_config.json'')
   = Path True [''out'', ''experiment_e1'', ''experiment_config.json'']"
  by (simp add: path_of_string_def py_split_def joinpath_def)

lemma missing_path:
  "joinpath (Path True [''out'', ''experiment_e1'']) (path_of_string ''missing.txt'')
   = Path True [''out'', ''experiment_e1'', ''missing.txt'']"
  by (simp add: path_of_string_def py_split_def joinpath_def)

lemma best_solution_path:
  "joinpath (Path True [''out'', ''experiment_e1'']) (path_of_string ''best_solution.json'')
   = Path True [''out'', ''experiment_e1'', ''best_solution.json'']"
  by (simp add: path_of_string_def py_split_def joinpath_def)

lemma files1:
  "list_result_files fs1 (Path True [''out'', ''experiment_e1''])
   = [''experiment_config.json'', ''run.log'']"
  by (simp add: list_result_files_def fs1_def lexical_resolve_def fs1_files_def
      fs1_directories_def joinpath_def)

subsection \<open>C1: the progress fields hold the latest value read\<close>




subsection \<open>C2: the collision flag\<close>

text \<open>
  C2 says that no operation of a run sets \<^verbatim>\<open>collision_found\<close> back to false once it is
  true. The job \<^verbatim>\<open>e1\<close> reads the line \<^verbatim>\<open>Collision found\<close>, which sets the flag; the
  next progress update of the supervision loop, 30 seconds later, stores the local
  \<^verbatim>\<open>collision_found\<close> of the task, which is still \<^verbatim>\<open>False\<close>, and the flag is false
  again. (The parser alone keeps the flag: \<open>parser_keeps_collision_latch\<close>.)
\<close>

theorem supervision_update_resets_collision_found:
  "progress_item (parse_progress_info float_table service1 ''e1'' ''Collision found'')
     ''e1'' ''collision_found'' = Some (PyBool True)
   \<and> progress_item
       (supervision_progress_update
          (parse_progress_info float_table service1 ''e1'' ''Collision found'') ''e1'' 30)
       ''e1'' ''collision_found'' = Some (PyBool False)"
proof -
  have "parse_line float_table ''Collision found'' = Inr (None, True, 0)"
    by (simp add: parse_line_def py_lower_def py_lower_char_def)
  then show ?thesis
    by (simp add: parse_progress_info_def supervision_progress_update_def service1_e1
        progress_item_def progress_or_empty_def Let_def)
qed

subsection \<open>C3: terminal states\<close>

text \<open>
  C3 says that no operation of the facade changes the status of a job that is completed,
  failed or stopped. The job \<^verbatim>\<open>e1\<close> has failed at time 2 and has no active task;
  \<^verbatim>\<open>start_experiment\<close> at time 3 succeeds and the job is running again.
\<close>

theorem terminal_job_restarts_counterexample:
  "job_view failed1 ''e1'' = Some (Failed, Some 1, Some 2)
   \<and> active_experiments failed1 ''e1'' = None
   \<and> fst (start_experiment failed1 3 ''e1'') = None
   \<and> job_view (snd (start_experiment failed1 3 ''e1'')) ''e1''
       = Some (Running, Some 3, Some 2)"
  by (simp add: failed1_def run1_def stop_experiment_def run_defs)

text \<open>
  C3, amended. For every job whose status is completed, failed or stopped and that has no
  active task: \<^verbatim>\<open>stop\<close> fails and changes nothing, \<^verbatim>\<open>update\<close> of notes and tags
  leaves the status as it is, and a status update that enters the same terminal status
  again leaves the status as it is. \<^verbatim>\<open>start\<close> is not refused: it succeeds and the job
  is running again.
\<close>

theorem terminal_status_kept_except_by_start:
  assumes "experiment_status st experiment_id = Some job"
    and "status job \<in> {Completed, Failed, Stopped}"
    and "active_experiments st experiment_id = None"
  shows "stop_experiment st now experiment_id =
           (Some (ValueError (''Experiment '' @ experiment_id @ '' is not running'')), st)
       \<and> status_of (update_experiment st experiment_id new_notes new_tags) experiment_id
           = Some (status job)
       \<and> fst (update_experiment_status st now experiment_id (status job) []) = None
       \<and> status_of (snd (update_experiment_status st now experiment_id (status job) []))
           experiment_id = Some (status job)
       \<and> fst (start_experiment st now experiment_id) = None
       \<and> status_of (snd (start_experiment st now experiment_id)) experiment_id = Some Running"
proof -
  have "status_of (update_experiment st experiment_id new_notes new_tags) experiment_id
           = Some (status job)"
    using assms(1)
    by (simp add: update_experiment_def status_of_def Let_def split: option.splits)
  moreover have "fst (update_experiment_status st now experiment_id (status job) []) = None"
    "status_of (snd (update_experiment_status st now experiment_id (status job) []))
           experiment_id = Some (status job)"
    using assms(1,2)
    by (auto simp: update_experiment_status_def status_of_def Let_def)
  moreover have "status_of (snd (start_experiment st now experiment_id)) experiment_id
      = Some Running"
    using start_ok(2) [OF assms(1,3), of now]
    by (auto simp: job_view_def status_of_def)
  ultimately show ?thesis
    using stop_not_running [OF assms(3), of now] start_ok(1) [OF assms(1,3), of now]
    by simp
qed

theorem terminal_status_kept_except_by_start_witness:
  "status_of failed1 ''e1'' = Some Failed
   \<and> active_experiments failed1 ''e1'' = None
   \<and> stop_experiment failed1 5 ''e1''
       = (Some (ValueError ''Experiment e1 is not running''), failed1)
   \<and> status_of (update_experiment failed1 ''e1'' (Some ''note'') None) ''e1'' = Some Failed
   \<and> status_of (snd (update_experiment_status failed1 5 ''e1'' Failed [])) ''e1''
       = Some Failed
   \<and> status_of (snd (start_experiment failed1 5 ''e1'')) ''e1'' = Some Running"
proof -
  from failed1_view(1) obtain job where
    job: "experiment_status failed1 ''e1'' = Some job" and st: "status job = Failed"
    by (auto simp: job_view_def)
  then have t: "status job \<in> {Completed, Failed, Stopped}" by simp
  from terminal_status_kept_except_by_start [OF job t failed1_view(3), of 5 "Some ''note''" None]
  show ?thesis
    using job st failed1_view(3) by (simp add: status_of_def)
qed

subsection \<open>C4: the timestamps\<close>

text \<open>
  C4 says that \<^verbatim>\<open>started_at\<close> is set by the first transition into running and
  \<^verbatim>\<open>completed_at\<close> by the first transition into a terminal state, and that neither
  changes afterwards. The store keeps that (\<^verbatim>\<open>and not record.started_at\<close>,
  \<^verbatim>\<open>and not record.completed_at\<close>); the status dictionary in memory does not. The job
  \<^verbatim>\<open>e1\<close> is started at time 1, fails at time 2, is started again at time 3 and fails
  again at time 4: in memory \<^verbatim>\<open>started_at\<close> goes from 1 to 3 and \<^verbatim>\<open>completed_at\<close>
  from 2 to 4, while the row in the store keeps 1 and 2.
\<close>

theorem status_update_overwrites_timestamps:
  "job_view run1 ''e1'' = Some (Running, Some 1, None)
   \<and> job_view failed1 ''e1'' = Some (Failed, Some 1, Some 2)
   \<and> job_view run2 ''e1'' = Some (Running, Some 3, Some 2)
   \<and> job_view failed2 ''e1'' = Some (Failed, Some 3, Some 4)
   \<and> record_view run2 ''e1'' = Some (Running, Some 1, Some 2)
   \<and> record_view failed2 ''e1'' = Some (Failed, Some 1, Some 2)"
  by (simp add: run1_view failed1_view run2_view failed2_view)

subsection \<open>C5: start and stop\<close>

text \<open>
  C5 says that \<^verbatim>\<open>stop\<close> fails exactly when the job has no active task. The start half
  of the claim holds (\<open>start_unknown\<close>, \<open>start_already_running\<close>, \<open>start_ok\<close>), and
  \<^verbatim>\<open>stop\<close> without an active task fails (\<open>stop_not_running\<close>). But the job \<^verbatim>\<open>e1\<close>,
  started at time 1 and with its task in the supervision loop, has an active task, and
  \<^verbatim>\<open>stop\<close> at time 5 fails as well: the cancelled task removes its own entry of
  \<^verbatim>\<open>active_experiments\<close> in its \<^verbatim>\<open>finally\<close> clause, and the
  \<^verbatim>\<open>del self.active_experiments[experiment_id]\<close> that follows in \<^verbatim>\<open>stop_experiment\<close>
  raises \<^verbatim>\<open>KeyError\<close>. The status is still running.
\<close>

theorem stop_of_started_task_raises:
  "active_experiments run1 ''e1'' = Some Started
   \<and> fst (stop_experiment run1 5 ''e1'') = Some (KeyError ''e1'')
   \<and> job_view (snd (stop_experiment run1 5 ''e1'')) ''e1'' = Some (Running, Some 1, None)
   \<and> active_experiments (snd (stop_experiment run1 5 ''e1'')) ''e1'' = None"
  by (simp add: run1_view stop_run1)

subsection \<open>C6: files are served from the output directory only\<close>

text \<open>
  C6. For every known job and every file name: when the resolved path of the file does
  not lie in the resolved output directory of the job, \<^verbatim>\<open>get_experiment_file_path\<close>
  returns nothing, whatever exists at that place; and a path that it returns is the joined
  path, exists, and resolves to a place in the output directory. In the file system of the
  examples \<^verbatim>\<open>../secret\<close> names an existing file beside the output directory, and
  nothing is returned for it.
\<close>

theorem file_path_within_output_directory:
  assumes "get_experiment st experiment_id = Some experiment"
  shows "(\<not> prefix (fs_resolve fs (output_dir_of experiment))
             (fs_resolve fs (joinpath (output_dir_of experiment) (path_of_string filename)))
          \<longrightarrow> get_experiment_file_path fs st experiment_id filename = None)
       \<and> (\<forall>p. get_experiment_file_path fs st experiment_id filename = Some p \<longrightarrow>
            p = joinpath (output_dir_of experiment) (path_of_string filename)
            \<and> fs_exists fs p
            \<and> prefix (fs_resolve fs (output_dir_of experiment)) (fs_resolve fs p))"
  using assms by (auto simp: get_experiment_file_path_def Let_def split: if_splits)

theorem file_path_within_output_directory_witness:
  "get_experiment_file_path fs1 service1 ''e1'' ''../secret'' = None
   \<and> fs_exists fs1
       (joinpath (path_of_string ''/out/experiment_e1'') (path_of_string ''../secret''))
   \<and> get_experiment_file_path fs1 service1 ''e1'' ''experiment_config.json''
       = Some (Path True [''out'', ''experiment_e1'', ''experiment_config.json''])
   \<and> get_experiment_file_path fs1 service1 ''e1'' ''missing.txt'' = None"
proof -
  have esc: "\<not> prefix (fs_resolve fs1 (Path True [''out'', ''experiment_e1'']))
     (fs_resolve fs1
        (joinpath (Path True [''out'', ''experiment_e1'']) (path_of_string ''../secret'')))"
    by (simp add: secret_path fs1_def lexical_resolve_def)
  have ex: "fs_exists fs1
     (joinpath (path_of_string ''/out/experiment_e1'') (path_of_string ''../secret''))"
    by (simp add: e1_dir secret_path fs1_def lexical_resolve_def fs1_files_def)
  have cfg: "get_experiment_file_path fs1 service1 ''e1'' ''experiment_config.json''
       = Some (Path True [''out'', ''experiment_e1'', ''experiment_config.json''])"
    by (simp add: get_experiment_file_path_def service1_get output_dir_of_def e1_dir
        config_path fs1_def lexical_resolve_def fs1_files_def)
  have mis: "get_experiment_file_path fs1 service1 ''e1'' ''missing.txt'' = None"
    by (simp add: get_experiment_file_path_def service1_get output_dir_of_def e1_dir
        missing_path fs1_def lexical_resolve_def fs1_files_def fs1_directories_def)
  from file_path_within_output_directory [OF service1_get, of fs1 "''../secret''"] esc
  have "get_experiment_file_path fs1 service1 ''e1'' ''../secret'' = None"
    by (simp add: output_dir_of_def e1_dir)
  with ex cfg mis show ?thesis by simp
qed

subsection \<open>C7: a reward line sets the reward\<close>

text \<open>
  C7. For every job of the registry: when the line holds \<^verbatim>\<open>Best reward:\<close> (first at
  the place shown, after \<open>pre\<close>), then white space \<open>ws\<close>, then a token \<open>tok\<close> that
  \<^verbatim>\<open>float\<close> converts to the number \<open>r\<close>, and the token ends the line or white space
  follows it, the progress parser stores \<open>r\<close> under \<^verbatim>\<open>best_reward\<close>. A numeric token
  holds no letter \<open>B\<close>, so no further marker starts inside it. For the line
  \<^verbatim>\<open>Best reward: 3.5 (delta ...)\<close> the stored number is 3.5.
\<close>

theorem reward_line_sets_best_reward:
  assumes "experiment_status st experiment_id = Some job"
    and "line_str = pre @ ''Best reward:'' @ ws @ tok @ rest"
    and "\<not> py_in ''Best reward:'' (pre @ ''Best reward'')"
    and "\<forall>c\<in>set ws. py_isspace c"
    and "tok \<noteq> []" and "\<forall>c\<in>set tok. \<not> py_isspace c \<and> c \<noteq> CHR ''B''"
    and "rest = [] \<or> py_isspace (hd rest)"
    and "fl tok = Some r"
  shows "progress_item (parse_progress_info fl st experiment_id line_str) experiment_id
           ''best_reward'' = Some (PyFloat r)"
proof -
  have "parse_line fl line_str = Inr (Some r, False, 0)"
    using assms(2-8) by (rule parse_line_reward [of line_str pre ws tok rest fl r])
  with assms(1) show ?thesis
    by (simp add: parse_progress_info_def progress_item_def Let_def)
qed

theorem reward_line_sets_best_reward_witness:
  "experiment_status (service1 :: rat service) ''e1'' \<noteq> None
   \<and> float_table ''3.5'' = Some (7 / 2)
   \<and> progress_item
        (parse_progress_info float_table service1 ''e1'' ''Best reward: 3.5 (delta ...)'')
        ''e1'' ''best_reward'' = Some (PyFloat (7 / 2))"
proof -
  have 2: "''Best reward: 3.5 (delta ...)'' = [] @ ''Best reward:'' @ '' '' @ ''3.5'' @ '' (delta ...)''" by simp
  have 3: "\<not> py_in ''Best reward:'' ([] @ ''Best reward'')" by simp
  have 4: "\<forall>c\<in>set '' ''. py_isspace c" by (simp add: py_isspace_def whitespace_chars_def)
  have 5: "''3.5'' \<noteq> []" by simp
  have 6: "\<forall>c\<in>set ''3.5''. \<not> py_isspace c \<and> c \<noteq> CHR ''B''" by (simp add: py_isspace_def whitespace_chars_def)
  have 7: "'' (delta ...)'' = [] \<or> py_isspace (hd '' (delta ...)'')" by (simp add: py_isspace_def whitespace_chars_def)
  have 8: "float_table ''3.5'' = Some (7 / 2)" by (simp add: float_table_def)
  show ?thesis
    using reward_line_sets_best_reward [of service1 "''e1''" _ _ "[]" "'' ''" "''3.5''" "'' (delta ...)''" float_table "7 / 2",
        OF service1_e1 2 3 4 5 6 7 8] 8 by (simp add: service1_e1)
qed

subsection \<open>C8: the line \<^verbatim>\<open>Iteration 7/20\<close>\<close>

text \<open>
  C8. For every job of the registry, the progress parser given the line
  \<^verbatim>\<open>Iteration 7/20\<close> stores 7 under \<^verbatim>\<open>current_iteration\<close> in the progress of the
  job, and what the progress holds under \<^verbatim>\<open>best_reward\<close> is the same before and after
  (nothing, when no reward was stored before).
\<close>

theorem iteration_line_sets_current_iteration:
  assumes "experiment_status st experiment_id = Some job"
  shows "progress_item (parse_progress_info fl st experiment_id ''Iteration 7/20'')
           experiment_id ''current_iteration'' = Some (PyInt 7)
       \<and> progress_item (parse_progress_info fl st experiment_id ''Iteration 7/20'')
           experiment_id ''best_reward'' = progress_item st experiment_id ''best_reward''"
  using assms
  by (simp add: parse_progress_info_def parse_line_iteration_7_20 progress_item_def
      progress_or_empty_def split: progress_slot.splits)

theorem iteration_line_sets_current_iteration_witness:
  "experiment_status (service1 :: rat service) ''e1'' \<noteq> None
   \<and> progress_item (parse_progress_info (\<lambda>s. None) (service1 :: rat service) ''e1''
        ''Iteration 7/20'') ''e1'' ''current_iteration'' = Some (PyInt 7)
   \<and> progress_item (parse_progress_info (\<lambda>s. None) (service1 :: rat service) ''e1''
        ''Iteration 7/20'') ''e1'' ''best_reward'' = None"
  using iteration_line_sets_current_iteration [OF service1_e1, where fl = "\<lambda>s. None"]
  by (simp add: service1_e1 progress_item_def)

subsection \<open>C9: results without an artifact\<close>

text \<open>
  C9 says that without \<^verbatim>\<open>best_solution.json\<close> the result has an empty file list. The
  list holds every file of the output directory: for the job \<^verbatim>\<open>e1\<close>, whose directory
  holds \<^verbatim>\<open>run.log\<close> and \<^verbatim>\<open>experiment_config.json\<close> and no artifact, the result
  lists both.
\<close>

theorem results_list_files_counterexample:
  "\<not> fs_exists fs1 (Path True [''out'', ''experiment_e1'', ''best_solution.json''])
   \<and> result_field res_total_iterations (get_experiment_results fs1 service1 ''e1'')
       = Some (PyInt 0)
   \<and> result_field res_result_files (get_experiment_results fs1 service1 ''e1'')
       = Some [''experiment_config.json'', ''run.log'']"
proof -
  have "\<not> fs_exists fs1 (Path True [''out'', ''experiment_e1'', ''best_solution.json''])"
    by (simp add: fs1_def lexical_resolve_def fs1_files_def fs1_directories_def)
  then show ?thesis
    by (simp add: get_experiment_results_def service1_get output_dir_of_def e1_dir
        best_solution_path files1 result_field_def dict_get_def Let_def)
qed

text \<open>
  C9, amended. For an unknown id \<^verbatim>\<open>get_experiment_results\<close> returns nothing. For a
  known id whose output directory holds no \<^verbatim>\<open>best_solution.json\<close> it returns a result
  and does not fail: the status of the job, \<^verbatim>\<open>total_iterations\<close> 0, no
  \<^verbatim>\<open>best_reward\<close>, \<^verbatim>\<open>collision_found\<close> false, and as file list the sorted names
  of the files that the output directory holds, which is empty when the directory does not
  exist (or holds no file).
\<close>

theorem results_without_artifact:
  "(experiment_status st experiment_id = None \<longrightarrow>
      get_experiment_results fs st experiment_id = Inr None)
   \<and> (\<forall>experiment.
        experiment_status st experiment_id = Some experiment
        \<and> \<not> fs_exists fs
              (joinpath (output_dir_of experiment) (path_of_string ''best_solution.json''))
        \<longrightarrow> (\<exists>r. get_experiment_results fs st experiment_id = Inr (Some r)
                \<and> res_final_status r = status experiment
                \<and> res_total_iterations r = PyInt 0
                \<and> res_best_reward r = PyNone
                \<and> res_best_parameters r = PyNone
                \<and> res_collision_found r = PyBool False
                \<and> res_collision_details r = PyNone
                \<and> res_total_duration r = PyNone
                \<and> res_result_files r = list_result_files fs (output_dir_of experiment)))
   \<and> (\<not> fs_exists fs d \<longrightarrow> list_result_files fs d = [])
   \<and> sorted (list_result_files fs d)
   \<and> (fs_exists fs d \<longrightarrow>
        set (list_result_files fs d)
        = {name \<in> set (fs_iterdir fs d). fs_is_file fs (joinpath d (Path False [name]))})"
  by (auto simp: get_experiment_results_def get_experiment_def dict_get_def
      list_result_files_def Let_def)

theorem results_without_artifact_witness:
  "experiment_status (service1 :: rat service) ''nope'' = None
   \<and> get_experiment_results fs1 service1 ''nope'' = Inr None
   \<and> \<not> fs_exists fs1
         (joinpath (path_of_string ''/out/experiment_e1'')
            (path_of_string ''best_solution.json''))
   \<and> result_field res_best_reward (get_experiment_results fs1 service1 ''e1'') = Some PyNone
   \<and> result_field res_collision_found (get_experiment_results fs1 service1 ''e1'')
       = Some (PyBool False)
   \<and> \<not> fs_exists fs1 (Path True [''nowhere''])
   \<and> list_result_files fs1 (Path True [''nowhere'']) = []"
proof -
  have u: "experiment_status (service1 :: rat service) ''nope'' = None"
    by (simp add: service1_def create_experiment_def empty_service_def)
  have k: "experiment_status (service1 :: rat service) ''e1'' =
     Some \<lparr>status = Created, config = [''num_iterations'' \<mapsto> PyInt 20], progress = IsNone,
           started_at = None, completed_at = None, error_message = PyNone,
           output_directory = Some ''/out/experiment_e1'', notes_field = None, tags = None\<rparr>"
    by (rule service1_e1)
  have nb: "\<not> fs_exists fs1
         (joinpath (path_of_string ''/out/experiment_e1'')
            (path_of_string ''best_solution.json''))"
    by (simp add: e1_dir best_solution_path fs1_def lexical_resolve_def fs1_files_def
        fs1_directories_def)
  have nw: "\<not> fs_exists fs1 (Path True [''nowhere''])"
    by (simp add: fs1_def lexical_resolve_def fs1_files_def fs1_directories_def)
  from results_without_artifact [of service1 "''nope''" fs1 "Path True [''nowhere'']"] u nw
  have a: "get_experiment_results fs1 service1 ''nope'' = Inr None"
    and b: "list_result_files fs1 (Path True [''nowhere'']) = []" by blast+
  from results_without_artifact [of service1 "''e1''" fs1 "Path True [''nowhere'']"] k nb
  obtain r where "get_experiment_results fs1 service1 ''e1'' = Inr (Some r)"
    "res_best_reward r = PyNone" "res_collision_found r = PyBool False"
    by (auto simp: output_dir_of_def)
  then have c: "result_field res_best_reward (get_experiment_results fs1 service1 ''e1'')
       = Some PyNone"
    "result_field res_collision_found (get_experiment_results fs1 service1 ''e1'')
       = Some (PyBool False)"
    by (simp_all add: result_field_def)
  from u a nb c nw b show ?thesis by simp
qed

subsection \<open>C10: a reward line touches the reward only\<close>

text \<open>
  C10. For every line that contains \<^verbatim>\<open>Best reward:\<close>, the progress parser changes no
  entry of any job's progress other than \<^verbatim>\<open>best_reward\<close>: \<^verbatim>\<open>current_iteration\<close>
  and \<^verbatim>\<open>collision_found\<close> are as before, also when the line matches the iteration pattern
  or holds a collision marker, since the reward test comes first in the chain.
\<close>

theorem reward_line_changes_only_best_reward:
  assumes "py_in ''Best reward:'' line_str" and "k \<noteq> ''best_reward''"
  shows "progress_item (parse_progress_info fl st experiment_id line_str) j k
         = progress_item st j k"
proof -
  from parse_line_reward_shape [OF assms(1), of fl]
  consider e where "parse_line fl line_str = Inl e"
    | r where "parse_line fl line_str = Inr (Some r, False, 0)" by blast
  then show ?thesis
  proof cases
    case 1
    then show ?thesis by (simp add: parse_progress_info_def)
  next
    case 2
    then show ?thesis using assms(2)
      by (auto simp: parse_progress_info_def progress_item_def progress_or_empty_def
          split: option.splits progress_slot.splits)
  qed
qed

theorem reward_line_changes_only_best_reward_witness:
  "py_in ''Best reward:'' ''Best reward: 3.5 Iteration 9/20 collision found''
   \<and> ''current_iteration'' \<noteq> ''best_reward''
   \<and> progress_item
        (parse_progress_info float_table
           (parse_progress_info float_table service1 ''e1'' ''Iteration 5/20'') ''e1''
           ''Best reward: 3.5 Iteration 9/20 collision found'')
        ''e1'' ''current_iteration'' = Some (PyInt 5)"
proof -
  have a: "py_in ''Best reward:'' ''Best reward: 3.5 Iteration 9/20 collision found''"
    by simp
  have b: "''current_iteration'' \<noteq> ''best_reward''" by simp
  have c: "progress_item (parse_progress_info float_table service1 ''e1'' ''Iteration 5/20'')
             ''e1'' ''current_iteration'' = Some (PyInt 5)"
    by (simp add: parse_progress_info_def parse_line_iteration_5_20 service1_e1
        progress_item_def progress_or_empty_def Let_def)
  show ?thesis
    using reward_line_changes_only_best_reward [OF a b, of float_table
        "parse_progress_info float_table service1 ''e1'' ''Iteration 5/20''" "''e1''" "''e1''"]
      a c by simp
qed

end
